theory Spec2Isabelle
  imports Main
begin

section \<open>Data model\<close>

text \<open>
  The types of \<^verbatim>\<open>frontend/lib/api.ts\<close> and of the cinema context. JavaScript numbers that
  carry identifiers and seat numbers are integers; strings are compared with \<^verbatim>\<open>===\<close>, which
  is equality of their characters.
\<close>

datatype estado_asiento = AsientoLibre | AsientoReservada | AsientoPagada

datatype estado_entrada = EntradaReservada | EntradaPagada

text \<open>\<^verbatim>\<open>interface Asiento { fila: string; numero: number; estado: ... }\<close>\<close>

record asiento =
  fila :: string
  numero :: int
  estado :: estado_asiento

text \<open>
  \<^verbatim>\<open>interface Entrada\<close>: the fields of \<^verbatim>\<open>lib/api.ts\<close> and of the context, together with the
  two fields the seat component reads and writes (\<^verbatim>\<open>simulated\<close>, \<^verbatim>\<open>isDemo\<close>). An optional
  field is an \<open>option\<close>; \<open>ent_simulated\<close> is the truthiness of \<^verbatim>\<open>entrada.simulated\<close>.
\<close>

record entrada =
  ent_id :: int
  ent_sesion :: int
  ent_fila :: string
  ent_numero :: int
  ent_email :: string
  ent_estado :: estado_entrada
  ent_etiqueta_asiento :: "string option"
  ent_creada_en :: "string option"
  ent_pelicula :: "string option"
  ent_hora :: "string option"
  ent_sala :: "string option"
  ent_simulated :: bool
  ent_isDemo :: "bool option"

text \<open>\<^verbatim>\<open>interface Pelicula\<close> and \<^verbatim>\<open>interface Sesion\<close> of the cinema context.\<close>

record pelicula_ctx =
  pel_id :: int
  pel_titulo :: string
  pel_poster :: "string option"
  pel_clasificacion :: "string option"

record sesion_ctx =
  ses_id :: int
  ses_pelicula_id :: int
  ses_fecha :: string
  ses_hora :: string
  ses_sala :: string
  ses_disponibles :: int
  ses_total :: int

record CinemaState =
  pelicula :: "pelicula_ctx option"
  sesion :: "sesion_ctx option"
  asientosSeleccionados :: "asiento list"
  entradasCreadas :: "entrada list"

datatype CinemaAction =
    SET_PELICULA pelicula_ctx
  | SET_SESION sesion_ctx
  | TOGGLE_ASIENTO asiento
  | CLEAR_ASIENTOS
  | SET_ENTRADAS_CREADAS "entrada list"
  | RESET

section \<open>The cinema reducer\<close>

definition initialState :: CinemaState where
  "initialState =
     \<lparr>pelicula = None, sesion = None, asientosSeleccionados = [], entradasCreadas = []\<rparr>"

text \<open>The predicate both callbacks of \<^verbatim>\<open>TOGGLE_ASIENTO\<close> use: same row and same number.\<close>

definition mismo_asiento :: "asiento \<Rightarrow> asiento \<Rightarrow> bool" where
  "mismo_asiento p a \<longleftrightarrow> fila a = fila p \<and> numero a = numero p"

fun cinemaReducer :: "CinemaState \<Rightarrow> CinemaAction \<Rightarrow> CinemaState" where
  "cinemaReducer state (SET_PELICULA p) = state\<lparr>pelicula := Some p\<rparr>"
| "cinemaReducer state (SET_SESION s) = state\<lparr>sesion := Some s\<rparr>"
| "cinemaReducer state (TOGGLE_ASIENTO p) =
     (case find (mismo_asiento p) (asientosSeleccionados state) of
        Some exists \<Rightarrow>
          state\<lparr>asientosSeleccionados :=
            filter (\<lambda>a. \<not> mismo_asiento p a) (asientosSeleccionados state)\<rparr>
      | None \<Rightarrow>
          state\<lparr>asientosSeleccionados := asientosSeleccionados state @ [p]\<rparr>)"
| "cinemaReducer state CLEAR_ASIENTOS = state\<lparr>asientosSeleccionados := []\<rparr>"
| "cinemaReducer state (SET_ENTRADAS_CREADAS es) = state\<lparr>entradasCreadas := es\<rparr>"
| "cinemaReducer state RESET = initialState"

text \<open>The state after dispatching a sequence of actions, starting from a given state.\<close>

definition dispatch_all :: "CinemaState \<Rightarrow> CinemaAction list \<Rightarrow> CinemaState" where
  "dispatch_all state acts = foldl cinemaReducer state acts"

text \<open>The coordinate of a seat, and the invariant: no coordinate is selected twice.\<close>

definition coord :: "asiento \<Rightarrow> string \<times> int" where
  "coord a = (fila a, numero a)"

definition seleccion_unica :: "CinemaState \<Rightarrow> bool" where
  "seleccion_unica state \<longleftrightarrow> distinct (map coord (asientosSeleccionados state))"

section \<open>Values received over HTTP\<close>

text \<open>
  The list endpoints inspect the response body at run time (\<^verbatim>\<open>!data\<close>,
  \<^verbatim>\<open>Array.isArray\<close>, \<^verbatim>\<open>data?.layout\<close>), so a body is a JavaScript value. An object is the
  list of its own properties.
\<close>

datatype json =
    JUndefined
  | JNull
  | JBool bool
  | JNum int
  | JStr string
  | JArr "json list"
  | JObj "(string \<times> json) list"

text \<open>\<^verbatim>\<open>!!v\<close>: undefined, null, false, 0 and the empty string are falsy.\<close>

fun truthy :: "json \<Rightarrow> bool" where
  "truthy JUndefined = False"
| "truthy JNull = False"
| "truthy (JBool b) = b"
| "truthy (JNum n) = (n \<noteq> 0)"
| "truthy (JStr s) = (s \<noteq> [])"
| "truthy (JArr xs) = True"
| "truthy (JObj kvs) = True"

text \<open>
  \<^verbatim>\<open>v.k\<close> and \<^verbatim>\<open>v?.k\<close> for the two keys the client reads, \<^verbatim>\<open>results\<close> and \<^verbatim>\<open>layout\<close>,
  which no array, string, number or boolean carries. The plain read \<^verbatim>\<open>data.results\<close> in
  \<^verbatim>\<open>unwrap\<close> comes after \<^verbatim>\<open>!data\<close> has excluded null and undefined.
\<close>

fun js_prop :: "json \<Rightarrow> string \<Rightarrow> json" where
  "js_prop (JObj kvs) k = (case map_of kvs k of Some v \<Rightarrow> v | None \<Rightarrow> JUndefined)"
| "js_prop v k = JUndefined"

text \<open>
  What a promise rejects with: the error of the HTTP client (with the status of the
  response when there was one), an \<^verbatim>\<open>Error\<close> created by \<^verbatim>\<open>new Error(message)\<close>, or a
  \<^verbatim>\<open>TypeError\<close> of the language.
\<close>

datatype thrown =
    AxiosError "int option" string
  | JsError string
  | TypeError string

text \<open>\<^verbatim>\<open>error?.response?.status\<close>\<close>

fun response_status :: "thrown \<Rightarrow> int option" where
  "response_status (AxiosError st m) = st"
| "response_status (JsError m) = None"
| "response_status (TypeError m) = None"

text \<open>\<^verbatim>\<open>err.message\<close>\<close>

fun message :: "thrown \<Rightarrow> string" where
  "message (AxiosError st m) = m"
| "message (JsError m) = m"
| "message (TypeError m) = m"

section \<open>Requests\<close>

text \<open>The parameter objects of \<^verbatim>\<open>getPeliculas\<close> and \<^verbatim>\<open>getSesiones\<close>.\<close>

record peliculas_params =
  pp_search :: "string option"
  pp_ordering :: "string option"
  pp_page :: "int option"

record sesiones_params =
  sp_pelicula :: "int option"
  sp_pelicula_id :: "int option"
  sp_sala :: "string option"
  sp_inicio_after :: "string option"
  sp_inicio_before :: "string option"
  sp_search :: "string option"
  sp_ordering :: "string option"
  sp_page :: "int option"

text \<open>The body of \<^verbatim>\<open>crearEntrada\<close>'s request.\<close>

record entrada_payload =
  p_sesion :: int
  p_fila :: string
  p_numero :: int
  p_email :: string
  p_estado :: estado_entrada

text \<open>
  A request names its endpoint and carries its parameters:
  \<^verbatim>\<open>GET /peliculas/\<close>, \<^verbatim>\<open>GET /sesiones/\<close>, \<^verbatim>\<open>GET /sesiones/{id}/asientos/\<close> with the value
  of \<^verbatim>\<open>include\<close> when it is sent, \<^verbatim>\<open>POST /entradas/\<close> and \<^verbatim>\<open>POST /entradas/{id}/pagar/\<close>.
\<close>

datatype get_request =
    GET_peliculas "peliculas_params option"
  | GET_sesiones sesiones_params
  | GET_asientos int "string option"

datatype post_request =
    POST_entradas entrada_payload
  | POST_pagar int

text \<open>
  \<^verbatim>\<open>api.get\<close> resolves with the body or rejects; \<^verbatim>\<open>api.post<Entrada>\<close> does the same with
  a body the client takes as an \<^verbatim>\<open>Entrada\<close>, and may change the state \<open>'s\<close> of the server.
\<close>

type_synonym api_get = "get_request \<Rightarrow> thrown + json"

type_synonym 's api_post = "post_request \<Rightarrow> 's \<Rightarrow> (thrown + entrada) \<times> 's"

section \<open>The API client\<close>

fun unwrap :: "json \<Rightarrow> json list" where
  "unwrap data =
     (if \<not> truthy data then []
      else case data of
        JArr xs \<Rightarrow> xs
      | _ \<Rightarrow> (case js_prop data ''results'' of JArr rs \<Rightarrow> rs | _ \<Rightarrow> []))"

definition getPeliculas :: "api_get \<Rightarrow> peliculas_params option \<Rightarrow> json list" where
  "getPeliculas api_get params =
     (case api_get (GET_peliculas params) of
        Inr data \<Rightarrow> unwrap data
      | Inl e \<Rightarrow> [])"

text \<open>\<^verbatim>\<open>mapped.pelicula_id && !mapped.pelicula\<close> on optional numbers.\<close>

fun truthy_num :: "int option \<Rightarrow> bool" where
  "truthy_num None = False"
| "truthy_num (Some n) = (n \<noteq> 0)"

definition empty_sesiones_params :: sesiones_params where
  "empty_sesiones_params =
     \<lparr>sp_pelicula = None, sp_pelicula_id = None, sp_sala = None, sp_inicio_after = None,
      sp_inicio_before = None, sp_search = None, sp_ordering = None, sp_page = None\<rparr>"

definition map_sesiones_params :: "sesiones_params option \<Rightarrow> sesiones_params" where
  "map_sesiones_params params =
     (let mapped = (case params of Some ps \<Rightarrow> ps | None \<Rightarrow> empty_sesiones_params);
          mapped = (if truthy_num (sp_pelicula_id mapped) \<and> \<not> truthy_num (sp_pelicula mapped)
                    then mapped\<lparr>sp_pelicula := sp_pelicula_id mapped\<rparr> else mapped)
      in mapped\<lparr>sp_pelicula_id := None\<rparr>)"

definition getSesiones :: "api_get \<Rightarrow> sesiones_params option \<Rightarrow> json list" where
  "getSesiones api_get params =
     (case api_get (GET_sesiones (map_sesiones_params params)) of
        Inr data \<Rightarrow> unwrap data
      | Inl e \<Rightarrow> [])"

text \<open>
  The loop of \<^verbatim>\<open>getAsientos\<close>: every element of the layout that is an array is spread
  into \<^verbatim>\<open>asientos\<close>, every other element is skipped.
\<close>

fun push_filas :: "json list \<Rightarrow> json list \<Rightarrow> json list" where
  "push_filas asientos [] = asientos"
| "push_filas asientos (f # layout) =
     push_filas (case f of JArr xs \<Rightarrow> asientos @ xs | _ \<Rightarrow> asientos) layout"

text \<open>
  The body of the \<^verbatim>\<open>try\<close> block. \<^verbatim>\<open>for ... of\<close> iterates an array, iterates a string
  character by character (no character is an array) and raises a \<^verbatim>\<open>TypeError\<close> on any
  other truthy value.
\<close>

definition getAsientos_try :: "api_get \<Rightarrow> int \<Rightarrow> bool \<Rightarrow> thrown + json list" where
  "getAsientos_try api_get sesionId includeEstado =
     (case api_get (GET_asientos sesionId (if includeEstado then Some ''estado'' else None)) of
        Inl e \<Rightarrow> Inl e
      | Inr data \<Rightarrow>
          (let l = js_prop data ''layout'';
               layout = (if truthy l then l else JArr [])
           in case layout of
                JArr filas \<Rightarrow> Inr (push_filas [] filas)
              | JStr s \<Rightarrow> Inr []
              | _ \<Rightarrow> Inl (TypeError ''layout is not iterable'')))"

definition getAsientos :: "api_get \<Rightarrow> int \<Rightarrow> bool \<Rightarrow> json list" where
  "getAsientos api_get sesionId includeEstado =
     (case getAsientos_try api_get sesionId includeEstado of
        Inr asientos \<Rightarrow> asientos
      | Inl e \<Rightarrow> [])"

text \<open>The three messages of the client; the accented letter is code point 225.\<close>

definition msg_asiento_no_disponible :: string where
  "msg_asiento_no_disponible = ''Ese asiento ya no est'' @ [CHR 0xE1] @ '' disponible''"

definition msg_error_reserva :: string where
  "msg_error_reserva = ''Error al crear la reserva''"

definition msg_error_pago :: string where
  "msg_error_pago = ''Error al procesar el pago''"

definition crearEntrada ::
  "'s api_post \<Rightarrow> entrada_payload \<Rightarrow> 's \<Rightarrow> (thrown + entrada) \<times> 's" where
  "crearEntrada api_post payload srv =
     (case api_post (POST_entradas payload) srv of
        (Inr data, srv') \<Rightarrow> (Inr data, srv')
      | (Inl error, srv') \<Rightarrow>
          (let status = response_status error
           in if status = Some 400 \<or> status = Some 409
              then (Inl (JsError msg_asiento_no_disponible), srv')
              else (Inl (JsError msg_error_reserva), srv')))"

definition pagarEntrada :: "'s api_post \<Rightarrow> int \<Rightarrow> 's \<Rightarrow> (thrown + entrada) \<times> 's" where
  "pagarEntrada api_post ident srv =
     (case api_post (POST_pagar ident) srv of
        (Inr data, srv') \<Rightarrow> (Inr data, srv')
      | (Inl error, srv') \<Rightarrow> (Inl (JsError msg_error_pago), srv'))"

section \<open>The seat component\<close>

text \<open>
  The state of \<^verbatim>\<open>Asientos\<close> (its \<^verbatim>\<open>useState\<close> cells) and everything
  \<^verbatim>\<open>handleConfirmarSeleccion\<close> can change: the server, the cinema context, the component
  and the route.
\<close>

record asientos_view =
  av_asientos :: "json list"
  av_loading :: bool
  av_error :: "string option"
  av_email :: string
  av_creandoEntradas :: bool

record 's asientos_world =
  aw_server :: 's
  aw_state :: CinemaState
  aw_view :: asientos_view
  aw_route :: "string option"

text \<open>\<^verbatim>\<open>String.prototype.trim\<close> on the white space of the 8-bit characters.\<close>

definition is_space :: "char \<Rightarrow> bool" where
  "is_space c \<longleftrightarrow>
     c \<in> set [CHR '' '', CHR 0x09, CHR 0x0A, CHR 0x0B, CHR 0x0C, CHR 0x0D, CHR 0xA0]"

definition trim :: "string \<Rightarrow> string" where
  "trim s = rev (dropWhile is_space (rev (dropWhile is_space s)))"

text \<open>
  \<^verbatim>\<open>cargarAsientos\<close>: \<^verbatim>\<open>getAsientos\<close> never rejects, so the \<^verbatim>\<open>catch\<close> branch is not
  reached; the error is reset and the seats are replaced.
\<close>

definition cargarAsientos :: "api_get \<Rightarrow> int \<Rightarrow> asientos_view \<Rightarrow> asientos_view" where
  "cargarAsientos api_get sesionId view =
     view\<lparr>av_error := None, av_asientos := getAsientos api_get sesionId True,
          av_loading := False\<rparr>"

text \<open>
  The \<^verbatim>\<open>for\<close> loop of \<^verbatim>\<open>handleConfirmarSeleccion\<close> over the selected seats, with its
  accumulators \<^verbatim>\<open>entradas\<close> and \<^verbatim>\<open>hasSimulatedEntries\<close>. The first failing
  \<^verbatim>\<open>crearEntrada\<close> ends the loop with its error. \<open>sesionId\<close> is the value of
  \<^verbatim>\<open>Number.parseInt(sesionId)\<close>.
\<close>

fun crear_entradas ::
  "'s api_post \<Rightarrow> int \<Rightarrow> string \<Rightarrow> asiento list \<Rightarrow> 's \<Rightarrow> entrada list \<Rightarrow> bool \<Rightarrow>
   (thrown + entrada list \<times> bool) \<times> 's" where
  "crear_entradas api_post sesionId email [] srv entradas hasSimulated =
     (Inr (entradas, hasSimulated), srv)"
| "crear_entradas api_post sesionId email (a # rest) srv entradas hasSimulated =
     (case crearEntrada api_post
             \<lparr>p_sesion = sesionId, p_fila = fila a, p_numero = numero a, p_email = email,
              p_estado = EntradaReservada\<rparr> srv of
        (Inl err, srv') \<Rightarrow> (Inl err, srv')
      | (Inr e, srv') \<Rightarrow>
          crear_entradas api_post sesionId email rest srv' (entradas @ [e])
            (hasSimulated \<or> ent_simulated e))"

text \<open>\<^verbatim>\<open>err.message || fallback\<close>\<close>

definition message_or :: "thrown \<Rightarrow> string \<Rightarrow> string" where
  "message_or err fallback = (if message err = [] then fallback else message err)"

definition handleConfirmarSeleccion ::
  "('s \<Rightarrow> api_get) \<Rightarrow> 's api_post \<Rightarrow> int \<Rightarrow> 's asientos_world \<Rightarrow> 's asientos_world" where
  "handleConfirmarSeleccion api_get api_post sesionId w =
     (let state = aw_state w; view = aw_view w in
      if asientosSeleccionados state = []
      then w\<lparr>aw_view := view\<lparr>av_error := Some ''Debe seleccionar al menos un asiento''\<rparr>\<rparr>
      else if trim (av_email view) = []
      then w\<lparr>aw_view := view\<lparr>av_error := Some ''El email es requerido''\<rparr>\<rparr>
      else
        (let view1 = view\<lparr>av_creandoEntradas := True, av_error := None\<rparr> in
         case crear_entradas api_post sesionId (trim (av_email view))
                (asientosSeleccionados state) (aw_server w) [] False of
           (Inl err, srv') \<Rightarrow>
             (let view2 = view1\<lparr>av_error := Some (message_or err ''Error al crear la entrada'')\<rparr>;
                  view3 = cargarAsientos (api_get srv') sesionId view2
              in w\<lparr>aw_server := srv', aw_view := view3\<lparr>av_creandoEntradas := False\<rparr>\<rparr>)
         | (Inr (entradas, hasSimulated), srv') \<Rightarrow>
             w\<lparr>aw_server := srv',
               aw_state :=
                 cinemaReducer
                   (cinemaReducer state
                      (SET_ENTRADAS_CREADAS
                         (map (\<lambda>e. e\<lparr>ent_isDemo := Some hasSimulated\<rparr>) entradas)))
                   CLEAR_ASIENTOS,
               aw_route := Some ''/confirmacion'',
               aw_view := view1\<lparr>av_creandoEntradas := False\<rparr>\<rparr>))"

section \<open>The confirmation component\<close>

record confirmacion_view =
  cv_pagandoEntradas :: "int set"
  cv_error :: "string option"

record 's confirmacion_world =
  cw_server :: 's
  cw_state :: CinemaState
  cw_view :: confirmacion_view

text \<open>The update \<^verbatim>\<open>handlePagar\<close> applies to \<^verbatim>\<open>state.entradasCreadas\<close> after the payment.\<close>

definition marcar_pagada :: "int \<Rightarrow> entrada list \<Rightarrow> entrada list" where
  "marcar_pagada entradaId entradas =
     map (\<lambda>e. if ent_id e = entradaId then e\<lparr>ent_estado := EntradaPagada\<rparr> else e) entradas"

text \<open>The first two statements of \<^verbatim>\<open>handlePagar\<close>: the id joins the set, the error is reset.\<close>

definition pagando_add :: "int \<Rightarrow> confirmacion_view \<Rightarrow> confirmacion_view" where
  "pagando_add entradaId view =
     view\<lparr>cv_pagandoEntradas := insert entradaId (cv_pagandoEntradas view), cv_error := None\<rparr>"

text \<open>
  \<^verbatim>\<open>handlePagar\<close> is an \<^verbatim>\<open>async\<close> function with one \<^verbatim>\<open>await\<close>. The closure belongs to a
  render of the component, so \<^verbatim>\<open>state\<close> in its body is the context state of that render,
  also in the statements after the \<^verbatim>\<open>await\<close>. What a call carries across the \<^verbatim>\<open>await\<close>:
  the id, the render-time \<^verbatim>\<open>state.entradasCreadas\<close> and the outcome of the request.
\<close>

record pago_pendiente =
  pg_entradaId :: int
  pg_snapshot :: "entrada list"
  pg_result :: "thrown + entrada"

text \<open>
  The part of \<^verbatim>\<open>handlePagar\<close> that runs at the click, up to the \<^verbatim>\<open>await\<close>: the id joins
  \<^verbatim>\<open>pagandoEntradas\<close>, the error is reset and the request is sent. The handler is the one of
  the latest render, whose \<^verbatim>\<open>state\<close> is the context state at the click.
\<close>

definition handlePagar_inicio ::
  "'s api_post \<Rightarrow> int \<Rightarrow> 's confirmacion_world \<Rightarrow> 's confirmacion_world \<times> pago_pendiente" where
  "handlePagar_inicio api_post entradaId w =
     (case pagarEntrada api_post entradaId (cw_server w) of
        (r, srv') \<Rightarrow>
          (w\<lparr>cw_server := srv', cw_view := pagando_add entradaId (cw_view w)\<rparr>,
           \<lparr>pg_entradaId = entradaId, pg_snapshot = entradasCreadas (cw_state w),
            pg_result = r\<rparr>))"

text \<open>
  The part of \<^verbatim>\<open>handlePagar\<close> that runs when the request has settled, on the world as it
  is then: on success \<^verbatim>\<open>setEntradasCreadas\<close> receives the render-time list with the id
  marked as paid, on failure the error is set; in both cases the id leaves
  \<^verbatim>\<open>pagandoEntradas\<close>.
\<close>

definition handlePagar_fin :: "pago_pendiente \<Rightarrow> 's confirmacion_world \<Rightarrow> 's confirmacion_world" where
  "handlePagar_fin k w =
     (let view = cw_view w in
      case pg_result k of
        Inr entradaPagada \<Rightarrow>
          w\<lparr>cw_state :=
              cinemaReducer (cw_state w)
                (SET_ENTRADAS_CREADAS (marcar_pagada (pg_entradaId k) (pg_snapshot k))),
            cw_view := view\<lparr>cv_pagandoEntradas := cv_pagandoEntradas view - {pg_entradaId k}\<rparr>\<rparr>
      | Inl err \<Rightarrow>
          w\<lparr>cw_view := view\<lparr>cv_error := Some ''Error al procesar el pago'',
                            cv_pagandoEntradas := cv_pagandoEntradas view - {pg_entradaId k}\<rparr>\<rparr>)"

text \<open>A call of \<^verbatim>\<open>handlePagar\<close> during which nothing else happens.\<close>

definition handlePagar ::
  "'s api_post \<Rightarrow> int \<Rightarrow> 's confirmacion_world \<Rightarrow> 's confirmacion_world" where
  "handlePagar api_post entradaId w =
     (case handlePagar_inicio api_post entradaId w of (w1, k) \<Rightarrow> handlePagar_fin k w1)"

text \<open>
  Two calls of \<^verbatim>\<open>handlePagar\<close> that overlap: the button of \<open>i\<close> and then the button of \<open>j\<close>
  are clicked before either request has settled (the button of a Ticket is disabled only
  while its own id is in \<^verbatim>\<open>pagandoEntradas\<close>), then the call for \<open>i\<close> resumes, then the call
  for \<open>j\<close>. The result is the world after the first and after the second has resumed.
\<close>

definition pagos_solapados ::
  "'s api_post \<Rightarrow> int \<Rightarrow> int \<Rightarrow> 's confirmacion_world \<Rightarrow>
   's confirmacion_world \<times> 's confirmacion_world" where
  "pagos_solapados api_post i j w =
     (case handlePagar_inicio api_post i w of
        (w1, ki) \<Rightarrow>
          (case handlePagar_inicio api_post j w1 of
             (w2, kj) \<Rightarrow> (handlePagar_fin ki w2, handlePagar_fin kj (handlePagar_fin ki w2))))"

section \<open>The Ticket Lifecycle Manager\<close>

text \<open>
  Modelled from the spec: the server behind \<^verbatim>\<open>/entradas/\<close>, \<^verbatim>\<open>/entradas/{id}/pagar/\<close> and
  \<^verbatim>\<open>/sesiones/{id}/asientos/\<close> is not among the sources. A Showing has an identifier and
  a grid shape (rowCount, columnCount); a Ticket references a Showing and has a seat
  coordinate, a contact email and a state, Reserved or Paid (the client's
  \<open>estado_entrada\<close>). The store is the list of Showings, the list of Tickets and the next
  free Ticket identifier.
\<close>

record showing =
  sh_id :: int
  sh_rowCount :: nat
  sh_columnCount :: nat

text \<open>
  Modelled from the spec: a Ticket, a claim on one seat coordinate of one Showing, in
  state Reserved or Paid.
\<close>

record ticket =
  t_id :: int
  t_showing :: int
  t_row :: string
  t_column :: int
  t_email :: string
  t_state :: estado_entrada

text \<open>
  Modelled from the spec: the persistence layer, a transactional store of Showings and
  Tickets.
\<close>

record store =
  st_showings :: "showing list"
  st_tickets :: "ticket list"
  st_next_id :: int

text \<open>
  Modelled from the spec: row labels are case-normalized to uppercase on write. Letters
  outside a-z are left as they are.
\<close>

definition toUpper :: "string \<Rightarrow> string" where
  "toUpper s =
     map (\<lambda>c. case map_of (zip ''abcdefghijklmnopqrstuvwxyz'' ''ABCDEFGHIJKLMNOPQRSTUVWXYZ'') c of
                 Some u \<Rightarrow> u | None \<Rightarrow> c) s"

text \<open>
  Modelled from the spec: the valid row labels of a Showing are the first rowCount letters
  of the alphabet.
\<close>

definition row_labels :: "nat \<Rightarrow> string list" where
  "row_labels rowCount = map (\<lambda>c. [c]) (take rowCount ''ABCDEFGHIJKLMNOPQRSTUVWXYZ'')"

text \<open>Modelled from the spec: the column numbers of a Showing are 1 to columnCount.\<close>

definition column_numbers :: "nat \<Rightarrow> int list" where
  "column_numbers columnCount = map int [1..<Suc columnCount]"

text \<open>
  Modelled from the spec: the validation of reserve, local and before the write: email
  non-empty, column in [1, columnCount], and the row, after uppercasing, among the valid
  row labels.
\<close>

definition valid_seat :: "showing \<Rightarrow> entrada_payload \<Rightarrow> bool" where
  "valid_seat sh payload \<longleftrightarrow>
     p_email payload \<noteq> [] \<and>
     1 \<le> p_numero payload \<and> p_numero payload \<le> int (sh_columnCount sh) \<and>
     toUpper (p_fila payload) \<in> set (row_labels (sh_rowCount sh))"

text \<open>Modelled from the spec: the Ticket as the response body the client receives.\<close>

definition entrada_of_ticket :: "ticket \<Rightarrow> entrada" where
  "entrada_of_ticket t =
     \<lparr>ent_id = t_id t, ent_sesion = t_showing t, ent_fila = t_row t, ent_numero = t_column t,
      ent_email = t_email t, ent_estado = t_state t, ent_etiqueta_asiento = None,
      ent_creada_en = None, ent_pelicula = None, ent_hora = None, ent_sala = None,
      ent_simulated = False, ent_isDemo = None\<rparr>"

text \<open>
  Modelled from the spec: reserve(showingId, row, column, email). An unknown Showing is
  NotFound (404); a validation failure is ValidationError (400) and never reaches the
  uniqueness check; a Ticket already on (showing, row, column) is SeatConflict (409); else
  a new Ticket in state Reserved, its row in uppercase, is written.
\<close>

definition reserve :: "entrada_payload \<Rightarrow> store \<Rightarrow> (thrown + entrada) \<times> store" where
  "reserve payload st =
     (case find (\<lambda>sh. sh_id sh = p_sesion payload) (st_showings st) of
        None \<Rightarrow> (Inl (AxiosError (Some 404) ''NotFound''), st)
      | Some sh \<Rightarrow>
          if \<not> valid_seat sh payload then (Inl (AxiosError (Some 400) ''ValidationError''), st)
          else if \<exists>t \<in> set (st_tickets st).
                    t_showing t = p_sesion payload \<and> t_row t = toUpper (p_fila payload) \<and>
                    t_column t = p_numero payload
          then (Inl (AxiosError (Some 409) ''SeatConflict''), st)
          else
            (let t = \<lparr>t_id = st_next_id st, t_showing = p_sesion payload,
                      t_row = toUpper (p_fila payload), t_column = p_numero payload,
                      t_email = p_email payload, t_state = EntradaReservada\<rparr>
             in (Inr (entrada_of_ticket t),
                 st\<lparr>st_tickets := st_tickets st @ [t], st_next_id := st_next_id st + 1\<rparr>)))"

text \<open>
  Modelled from the spec: pay(ticketId). An unknown Ticket is NotFound; a Ticket already
  Paid is returned unchanged, with success; a Reserved Ticket becomes Paid, is persisted
  and returned.
\<close>

definition pay :: "int \<Rightarrow> store \<Rightarrow> (thrown + entrada) \<times> store" where
  "pay ticketId st =
     (case find (\<lambda>t. t_id t = ticketId) (st_tickets st) of
        None \<Rightarrow> (Inl (AxiosError (Some 404) ''NotFound''), st)
      | Some t \<Rightarrow>
          if t_state t = EntradaPagada then (Inr (entrada_of_ticket t), st)
          else
            (Inr (entrada_of_ticket (t\<lparr>t_state := EntradaPagada\<rparr>)),
             st\<lparr>st_tickets :=
                  map (\<lambda>u. if t_id u = ticketId then u\<lparr>t_state := EntradaPagada\<rparr> else u)
                    (st_tickets st)\<rparr>))"

text \<open>
  Modelled from the spec: the seat-map projection. A cell is free unless a Ticket of the
  Showing sits on its coordinate, and then it is reserved or paid as that Ticket is.
\<close>

definition cell :: "store \<Rightarrow> int \<Rightarrow> string \<Rightarrow> int \<Rightarrow> asiento" where
  "cell st showingId r c =
     \<lparr>fila = r, numero = c,
      estado =
        (case find (\<lambda>t. t_showing t = showingId \<and> t_row t = r \<and> t_column t = c)
                (st_tickets st) of
           None \<Rightarrow> AsientoLibre
         | Some t \<Rightarrow>
             (case t_state t of
                EntradaReservada \<Rightarrow> AsientoReservada
              | EntradaPagada \<Rightarrow> AsientoPagada))\<rparr>"

text \<open>
  Modelled from the spec: the 2-D structure of size rowCount by columnCount, one row of
  cells per row label.
\<close>

definition seat_map :: "store \<Rightarrow> showing \<Rightarrow> asiento list list" where
  "seat_map st sh =
     map (\<lambda>r. map (\<lambda>c. cell st (sh_id sh) r c) (column_numbers (sh_columnCount sh)))
       (row_labels (sh_rowCount sh))"

text \<open>
  Modelled from the spec: the status of a cell on the wire, one of
  \<^verbatim>\<open>libre | reservada | pagada\<close>.
\<close>

fun estado_str :: "estado_asiento \<Rightarrow> string" where
  "estado_str AsientoLibre = ''libre''"
| "estado_str AsientoReservada = ''reservada''"
| "estado_str AsientoPagada = ''pagada''"

text \<open>Modelled from the spec: a cell in full detail mode.\<close>

definition asiento_json :: "asiento \<Rightarrow> json" where
  "asiento_json a =
     JObj [(''fila'', JStr (fila a)), (''numero'', JNum (numero a)),
           (''estado'', JStr (estado_str (estado a)))]"

text \<open>Modelled from the spec: a cell in summary mode, with a boolean occupied flag.\<close>

definition asiento_json_summary :: "asiento \<Rightarrow> json" where
  "asiento_json_summary a =
     JObj [(''fila'', JStr (fila a)), (''numero'', JNum (numero a)),
           (''ocupado'', JBool (estado a \<noteq> AsientoLibre))]"

text \<open>
  Modelled from the spec: get-seat-map(showingId, detailMode), NotFound for an unknown
  Showing, else the grid under the key \<^verbatim>\<open>layout\<close> the client reads.
\<close>

definition get_seat_map :: "store \<Rightarrow> int \<Rightarrow> bool \<Rightarrow> thrown + json" where
  "get_seat_map st showingId detail =
     (case find (\<lambda>sh. sh_id sh = showingId) (st_showings st) of
        None \<Rightarrow> Inl (AxiosError (Some 404) ''NotFound'')
      | Some sh \<Rightarrow>
          Inr (JObj [(''layout'',
                 JArr (map (\<lambda>row. JArr (map (if detail then asiento_json
                                              else asiento_json_summary) row))
                         (seat_map st sh)))]))"

text \<open>
  Modelled from the spec: the server as the client's two transports. The listing of
  movies and showings is outside the slice the spec describes; the model has no
  catalogue and answers those with an empty list.
\<close>

fun server_get :: "store \<Rightarrow> api_get" where
  "server_get st (GET_asientos showingId inc) = get_seat_map st showingId (inc = Some ''estado'')"
| "server_get st (GET_peliculas ps) = Inr (JArr [])"
| "server_get st (GET_sesiones ps) = Inr (JArr [])"

text \<open>
  Modelled from the spec: create-ticket and pay-ticket as the answers to the client's two
  \<^verbatim>\<open>POST\<close> requests.
\<close>

fun server_post :: "store api_post" where
  "server_post (POST_entradas payload) st = reserve payload st"
| "server_post (POST_pagar ticketId) st = pay ticketId st"

section \<open>Coordinates in a seat map\<close>



section \<open>Example values\<close>

text \<open>
  A store with one Showing, number 1 with grid (2, 2), in which seat (A, 2)
  is reserved by another customer.
\<close>

definition store_ejemplo :: store where
  "store_ejemplo =
     \<lparr>st_showings = [\<lparr>sh_id = 1, sh_rowCount = 2, sh_columnCount = 2\<rparr>],
      st_tickets = [\<lparr>t_id = 1, t_showing = 1, t_row = ''A'', t_column = 2,
                     t_email = ''otro@cine.es'', t_state = EntradaReservada\<rparr>],
      st_next_id = 2\<rparr>"

text \<open>The request of the customer \<^verbatim>\<open>x@y.com\<close> for a seat of Showing 1.\<close>

definition payload_ejemplo :: "string \<Rightarrow> int \<Rightarrow> entrada_payload" where
  "payload_ejemplo f n =
     \<lparr>p_sesion = 1, p_fila = f, p_numero = n, p_email = ''x@y.com'',
      p_estado = EntradaReservada\<rparr>"

text \<open>
  The example store after the Ticket 1 has been paid, and a confirmation page whose
  context holds the Tickets 1 and 5 as they were created.
\<close>

definition store_pagado :: store where
  "store_pagado =
     store_ejemplo\<lparr>st_tickets :=
       [\<lparr>t_id = 1, t_showing = 1, t_row = ''A'', t_column = 2,
         t_email = ''otro@cine.es'', t_state = EntradaPagada\<rparr>]\<rparr>"

definition world_confirmacion_ejemplo :: "store confirmacion_world" where
  "world_confirmacion_ejemplo =
     \<lparr>cw_server = store_ejemplo,
      cw_state = initialState\<lparr>entradasCreadas :=
        [entrada_of_ticket \<lparr>t_id = 1, t_showing = 1, t_row = ''A'', t_column = 2,
                            t_email = ''otro@cine.es'', t_state = EntradaReservada\<rparr>,
         entrada_of_ticket \<lparr>t_id = 5, t_showing = 1, t_row = ''B'', t_column = 1,
                            t_email = ''otro@cine.es'', t_state = EntradaReservada\<rparr>]\<rparr>,
      cw_view = \<lparr>cv_pagandoEntradas = {}, cv_error = None\<rparr>\<rparr>"

text \<open>
  A store in which the customer \<^verbatim>\<open>x@y.com\<close> has reserved the seats (A, 1) and (B, 1) of
  Showing 1, and the confirmation page that shows the two Tickets.
\<close>

definition store_dos :: store where
  "store_dos =
     \<lparr>st_showings = [\<lparr>sh_id = 1, sh_rowCount = 2, sh_columnCount = 2\<rparr>],
      st_tickets = [\<lparr>t_id = 1, t_showing = 1, t_row = ''A'', t_column = 1,
                     t_email = ''x@y.com'', t_state = EntradaReservada\<rparr>,
                    \<lparr>t_id = 5, t_showing = 1, t_row = ''B'', t_column = 1,
                     t_email = ''x@y.com'', t_state = EntradaReservada\<rparr>],
      st_next_id = 6\<rparr>"

definition entrada_dos :: "int \<Rightarrow> string \<Rightarrow> estado_entrada \<Rightarrow> entrada" where
  "entrada_dos i f e =
     entrada_of_ticket \<lparr>t_id = i, t_showing = 1, t_row = f, t_column = 1,
                        t_email = ''x@y.com'', t_state = e\<rparr>"

definition world_confirmacion_dos :: "store confirmacion_world" where
  "world_confirmacion_dos =
     \<lparr>cw_server = store_dos,
      cw_state = initialState\<lparr>entradasCreadas :=
        [entrada_dos 1 ''A'' EntradaReservada, entrada_dos 5 ''B'' EntradaReservada]\<rparr>,
      cw_view = \<lparr>cv_pagandoEntradas = {}, cv_error = None\<rparr>\<rparr>"




text \<open>
  The seat page of the customer \<^verbatim>\<open>x@y.com\<close> over the example store, with the seats (A, 1)
  and (A, 2) selected; (A, 2) has meanwhile been reserved by another customer.
\<close>

definition world_asientos_ejemplo :: "store asientos_world" where
  "world_asientos_ejemplo =
     \<lparr>aw_server = store_ejemplo,
      aw_state = initialState\<lparr>asientosSeleccionados :=
        [\<lparr>fila = ''A'', numero = 1, estado = AsientoLibre\<rparr>,
         \<lparr>fila = ''A'', numero = 2, estado = AsientoLibre\<rparr>]\<rparr>,
      aw_view = \<lparr>av_asientos = [], av_loading = False, av_error = None,
                 av_email = '' x@y.com'', av_creandoEntradas = False\<rparr>,
      aw_route = None\<rparr>"

section \<open>Properties of the reducer\<close>

lemma mismo_asiento_coord: "mismo_asiento p a \<longleftrightarrow> coord a = coord p"
  by (simp add: mismo_asiento_def coord_def)

lemma find_None_coord:
  "find (mismo_asiento p) xs = None \<longleftrightarrow> coord p \<notin> set (map coord xs)"
  by (induction xs) (auto simp: mismo_asiento_coord)

lemma distinct_coord_filter:
  "distinct (map coord xs) \<Longrightarrow> distinct (map coord (filter P xs))"
  by (simp add: distinct_map_filter)

lemma filter_absent_coord:
  "coord p \<notin> set (map coord xs) \<Longrightarrow> filter (\<lambda>a. \<not> mismo_asiento p a) xs = xs"
  by (induction xs) (auto simp: mismo_asiento_coord)

lemma reducer_preserves:
  "seleccion_unica state \<Longrightarrow> seleccion_unica (cinemaReducer state act)"
proof (cases act)
  case (TOGGLE_ASIENTO p)
  assume inv: "seleccion_unica state"
  show ?thesis
  proof (cases "find (mismo_asiento p) (asientosSeleccionados state)")
    case None
    then have "coord p \<notin> set (map coord (asientosSeleccionados state))"
      using find_None_coord [of p "asientosSeleccionados state"] by simp
    with inv None TOGGLE_ASIENTO show ?thesis
      by (simp add: seleccion_unica_def)
  next
    case (Some e)
    with inv TOGGLE_ASIENTO show ?thesis
      by (simp add: seleccion_unica_def distinct_coord_filter)
  qed
qed (simp_all add: seleccion_unica_def initialState_def)

lemma dispatch_all_preserves:
  "seleccion_unica state \<Longrightarrow> seleccion_unica (dispatch_all state acts)"
  unfolding dispatch_all_def
  by (induction acts arbitrary: state) (simp_all add: reducer_preserves)

lemma initial_unica: "seleccion_unica initialState"
  by (simp add: seleccion_unica_def initialState_def)

text \<open>
  C8. In every state reached from \<open>initialState\<close> by a sequence of reducer actions the
  selection holds at most one seat per (fila, numero) pair, and every single action
  preserves that invariant.
\<close>

theorem C8_seleccion_unica_invariant:
  "seleccion_unica (dispatch_all initialState acts) \<and>
   (seleccion_unica state \<longrightarrow> seleccion_unica (cinemaReducer state act))"
  using dispatch_all_preserves [OF initial_unica] reducer_preserves by blast

theorem C8_seleccion_unica_witness:
  "seleccion_unica
     (dispatch_all initialState
        [TOGGLE_ASIENTO \<lparr>fila = ''A'', numero = 1, estado = AsientoLibre\<rparr>,
         TOGGLE_ASIENTO \<lparr>fila = ''B'', numero = 2, estado = AsientoLibre\<rparr>,
         TOGGLE_ASIENTO \<lparr>fila = ''A'', numero = 1, estado = AsientoLibre\<rparr>]) \<and>
   seleccion_unica
     (initialState\<lparr>asientosSeleccionados := [\<lparr>fila = ''A'', numero = 1, estado = AsientoLibre\<rparr>]\<rparr>) \<and>
   seleccion_unica
     (cinemaReducer
        (initialState\<lparr>asientosSeleccionados := [\<lparr>fila = ''A'', numero = 1, estado = AsientoLibre\<rparr>]\<rparr>)
        (TOGGLE_ASIENTO \<lparr>fila = ''B'', numero = 1, estado = AsientoLibre\<rparr>))"
  using C8_seleccion_unica_invariant
    [of "[TOGGLE_ASIENTO \<lparr>fila = ''A'', numero = 1, estado = AsientoLibre\<rparr>,
         TOGGLE_ASIENTO \<lparr>fila = ''B'', numero = 2, estado = AsientoLibre\<rparr>,
         TOGGLE_ASIENTO \<lparr>fila = ''A'', numero = 1, estado = AsientoLibre\<rparr>]"
        "initialState\<lparr>asientosSeleccionados := [\<lparr>fila = ''A'', numero = 1, estado = AsientoLibre\<rparr>]\<rparr>"
        "TOGGLE_ASIENTO \<lparr>fila = ''B'', numero = 1, estado = AsientoLibre\<rparr>"]
  by (simp add: seleccion_unica_def initialState_def coord_def)

lemma toggle_absent:
  "coord p \<notin> set (map coord (asientosSeleccionados state)) \<Longrightarrow>
   cinemaReducer state (TOGGLE_ASIENTO p) =
     state\<lparr>asientosSeleccionados := asientosSeleccionados state @ [p]\<rparr>"
  using find_None_coord [of p "asientosSeleccionados state"] by simp

lemma toggle_present_last:
  "coord p \<notin> set (map coord xs) \<Longrightarrow>
   cinemaReducer (state\<lparr>asientosSeleccionados := xs @ [p]\<rparr>) (TOGGLE_ASIENTO p) =
     state\<lparr>asientosSeleccionados := xs\<rparr>"
proof -
  assume absent: "coord p \<notin> set (map coord xs)"
  have "find (mismo_asiento p) (xs @ [p]) \<noteq> None"
    using find_None_coord [of p "xs @ [p]"] by simp
  then obtain e where "find (mismo_asiento p) (xs @ [p]) = Some e" by blast
  moreover have "filter (\<lambda>a. \<not> mismo_asiento p a) (xs @ [p]) = xs"
    using filter_absent_coord [OF absent] by (simp add: mismo_asiento_def)
  ultimately show ?thesis by simp
qed

text \<open>
  C9. Toggling a seat is a round trip. A seat is identified by its coordinate, as in the
  reducer's own test: when the invariant holds and no selected seat has the coordinate of
  \<open>p\<close>, one \<^verbatim>\<open>TOGGLE_ASIENTO\<close> appends exactly \<open>p\<close> at the end of the selection and a second
  one gives back the original selection (and the original state).
\<close>

theorem C9_toggle_round_trip:
  assumes "seleccion_unica state"
    and "coord p \<notin> set (map coord (asientosSeleccionados state))"
  shows "asientosSeleccionados (cinemaReducer state (TOGGLE_ASIENTO p)) =
           asientosSeleccionados state @ [p] \<and>
         asientosSeleccionados
           (cinemaReducer (cinemaReducer state (TOGGLE_ASIENTO p)) (TOGGLE_ASIENTO p)) =
           asientosSeleccionados state \<and>
         cinemaReducer (cinemaReducer state (TOGGLE_ASIENTO p)) (TOGGLE_ASIENTO p) = state"
  using toggle_absent [OF assms(2)] toggle_present_last [OF assms(2), of state] by simp

theorem C9_toggle_round_trip_witness:
  "seleccion_unica
     (initialState\<lparr>asientosSeleccionados := [\<lparr>fila = ''A'', numero = 1, estado = AsientoLibre\<rparr>]\<rparr>) \<and>
   coord \<lparr>fila = ''A'', numero = 2, estado = AsientoLibre\<rparr> \<notin>
     set (map coord (asientosSeleccionados
       (initialState\<lparr>asientosSeleccionados := [\<lparr>fila = ''A'', numero = 1, estado = AsientoLibre\<rparr>]\<rparr>))) \<and>
   asientosSeleccionados
     (cinemaReducer
        (initialState\<lparr>asientosSeleccionados := [\<lparr>fila = ''A'', numero = 1, estado = AsientoLibre\<rparr>]\<rparr>)
        (TOGGLE_ASIENTO \<lparr>fila = ''A'', numero = 2, estado = AsientoLibre\<rparr>)) =
     [\<lparr>fila = ''A'', numero = 1, estado = AsientoLibre\<rparr>,
      \<lparr>fila = ''A'', numero = 2, estado = AsientoLibre\<rparr>] \<and>
   asientosSeleccionados
     (cinemaReducer
        (cinemaReducer
           (initialState\<lparr>asientosSeleccionados := [\<lparr>fila = ''A'', numero = 1, estado = AsientoLibre\<rparr>]\<rparr>)
           (TOGGLE_ASIENTO \<lparr>fila = ''A'', numero = 2, estado = AsientoLibre\<rparr>))
        (TOGGLE_ASIENTO \<lparr>fila = ''A'', numero = 2, estado = AsientoLibre\<rparr>)) =
     [\<lparr>fila = ''A'', numero = 1, estado = AsientoLibre\<rparr>]"
proof -
  let ?s = "initialState\<lparr>asientosSeleccionados := [\<lparr>fila = ''A'', numero = 1, estado = AsientoLibre\<rparr>]\<rparr>"
  let ?p = "\<lparr>fila = ''A'', numero = 2, estado = AsientoLibre\<rparr>"
  have inv: "seleccion_unica ?s"
    by (simp add: seleccion_unica_def initialState_def)
  have absent: "coord ?p \<notin> set (map coord (asientosSeleccionados ?s))"
    by (simp add: coord_def initialState_def)
  from C9_toggle_round_trip [OF inv absent] inv absent show ?thesis
    by (simp add: initialState_def mismo_asiento_def)
qed

section \<open>Errors reported by the client\<close>

lemma msgs_distinct: "msg_asiento_no_disponible \<noteq> msg_error_reserva"
  by (simp add: msg_asiento_no_disponible_def msg_error_reserva_def)

lemma crearEntrada_failure:
  "api_post (POST_entradas payload) srv = (Inl err, srv') \<Longrightarrow>
   crearEntrada api_post payload srv =
     (Inl (JsError (if response_status err = Some 400 \<or> response_status err = Some 409
                    then msg_asiento_no_disponible else msg_error_reserva)), srv')"
  by (simp add: crearEntrada_def)

lemma crearEntrada_success:
  "api_post (POST_entradas payload) srv = (Inr data, srv') \<Longrightarrow>
   crearEntrada api_post payload srv = (Inr data, srv')"
  by (simp add: crearEntrada_def)

lemma pagarEntrada_failure:
  "api_post (POST_pagar i) srv = (Inl err, srv') \<Longrightarrow>
   pagarEntrada api_post i srv = (Inl (JsError msg_error_pago), srv')"
  by (simp add: pagarEntrada_def)

lemma pagarEntrada_success:
  "api_post (POST_pagar i) srv = (Inr data, srv') \<Longrightarrow>
   pagarEntrada api_post i srv = (Inr data, srv')"
  by (simp add: pagarEntrada_def)

text \<open>
  C1 as stated fails. In the example store the request for (a, 0) fails validation (400) and
  the request for (a, 2) fails on the seat conflict (409), and \<^verbatim>\<open>crearEntrada\<close> reports both
  with the same error.
\<close>

theorem C1_counterexample:
  "fst (server_post (POST_entradas (payload_ejemplo ''a'' 0)) store_ejemplo) =
     Inl (AxiosError (Some 400) ''ValidationError'') \<and>
   fst (server_post (POST_entradas (payload_ejemplo ''a'' 2)) store_ejemplo) =
     Inl (AxiosError (Some 409) ''SeatConflict'') \<and>
   fst (crearEntrada server_post (payload_ejemplo ''a'' 0) store_ejemplo) =
     fst (crearEntrada server_post (payload_ejemplo ''a'' 2) store_ejemplo)"
  by (simp add: crearEntrada_def reserve_def store_ejemplo_def payload_ejemplo_def
      valid_seat_def toUpper_def row_labels_def)

text \<open>
  C1, amended. For every failed create-ticket call, \<^verbatim>\<open>crearEntrada\<close> distinguishes two
  classes only: a failure answered with status 400 or 409 is reported as
  \<open>msg_asiento_no_disponible\<close>, every other failure as \<open>msg_error_reserva\<close>, and the two
  messages differ. A validation failure (400) and a seat conflict (409) are reported alike.
\<close>

theorem C1_error_classes:
  assumes "api_post (POST_entradas payload) srv = (Inl err, srv')"
  shows "fst (crearEntrada api_post payload srv) =
           Inl (JsError (if response_status err = Some 400 \<or> response_status err = Some 409
                         then msg_asiento_no_disponible else msg_error_reserva)) \<and>
         msg_asiento_no_disponible \<noteq> msg_error_reserva"
  using assms by (simp add: crearEntrada_failure msgs_distinct)

theorem C1_error_classes_witness:
  "server_post (POST_entradas (payload_ejemplo ''a'' 2)) store_ejemplo =
     (Inl (AxiosError (Some 409) ''SeatConflict''), store_ejemplo) \<and>
   fst (crearEntrada server_post (payload_ejemplo ''a'' 2) store_ejemplo) =
     Inl (JsError msg_asiento_no_disponible)"
proof -
  have h: "server_post (POST_entradas (payload_ejemplo ''a'' 2)) store_ejemplo =
     (Inl (AxiosError (Some 409) ''SeatConflict''), store_ejemplo)"
    by (simp add: reserve_def store_ejemplo_def payload_ejemplo_def
      valid_seat_def toUpper_def row_labels_def)
  from C1_error_classes
         [of server_post "payload_ejemplo ''a'' 2" store_ejemplo
             "AxiosError (Some 409) ''SeatConflict''" store_ejemplo] h
  show ?thesis by simp
qed

text \<open>
  C5 as stated fails. When the request fails without a response (a connectivity error),
  neither \<^verbatim>\<open>crearEntrada\<close> nor \<^verbatim>\<open>pagarEntrada\<close> rejects with that failure.
\<close>

theorem C5_counterexample:
  "crearEntrada (\<lambda>req srv. (Inl (AxiosError None ''Network Error''), srv))
     (payload_ejemplo ''A'' 1) store_ejemplo \<noteq>
     (Inl (AxiosError None ''Network Error''), store_ejemplo) \<and>
   pagarEntrada (\<lambda>req srv. (Inl (AxiosError None ''Network Error''), srv)) 1 store_ejemplo \<noteq>
     (Inl (AxiosError None ''Network Error''), store_ejemplo)"
  by (simp add: crearEntrada_def pagarEntrada_def)

text \<open>
  C5, amended. The client does not propagate the underlying failure. \<^verbatim>\<open>crearEntrada\<close>
  replaces every failure whose status is neither 400 nor 409 (connectivity errors, 5xx,
  also 404) by the error \<open>msg_error_reserva\<close>, and \<^verbatim>\<open>pagarEntrada\<close> replaces every
  failure by the error \<open>msg_error_pago\<close>; the state the server was left in is kept.
\<close>

theorem C5_failures_replaced:
  "(api_post (POST_entradas payload) srv = (Inl err, srv') \<and>
    response_status err \<noteq> Some 400 \<and> response_status err \<noteq> Some 409 \<longrightarrow>
      crearEntrada api_post payload srv = (Inl (JsError msg_error_reserva), srv')) \<and>
   (api_post (POST_pagar ident) srv = (Inl err, srv') \<longrightarrow>
      pagarEntrada api_post ident srv = (Inl (JsError msg_error_pago), srv'))"
  by (simp add: crearEntrada_failure pagarEntrada_failure)

theorem C5_failures_replaced_witness:
  "crearEntrada (\<lambda>req srv. (Inl (AxiosError (Some 503) ''Service Unavailable''), srv))
     (payload_ejemplo ''A'' 1) store_ejemplo =
     (Inl (JsError msg_error_reserva), store_ejemplo) \<and>
   pagarEntrada (\<lambda>req srv. (Inl (AxiosError (Some 503) ''Service Unavailable''), srv))
     1 store_ejemplo =
     (Inl (JsError msg_error_pago), store_ejemplo)"
  using C5_failures_replaced
    [of "\<lambda>req srv. (Inl (AxiosError (Some 503) ''Service Unavailable''), srv)"
        "payload_ejemplo ''A'' 1" store_ejemplo "AxiosError (Some 503) ''Service Unavailable''"
        store_ejemplo 1]
  by simp

section \<open>The list endpoints\<close>

lemma unwrap_not_list:
  "(\<forall>xs. data \<noteq> JArr xs) \<Longrightarrow> (\<forall>rs. js_prop data ''results'' \<noteq> JArr rs) \<Longrightarrow>
   unwrap data = []"
  by (cases data; cases "js_prop data ''results''") auto

lemma getAsientos_failure:
  "getAsientos_try api_get sid inc = Inl e \<Longrightarrow> getAsientos api_get sid inc = []"
  by (simp add: getAsientos_def)

lemma getAsientos_request_failure:
  "api_get (GET_asientos sid (if inc then Some ''estado'' else None)) = Inl e \<Longrightarrow>
   getAsientos api_get sid inc = []"
  by (simp add: getAsientos_def getAsientos_try_def)

lemma getAsientos_not_list:
  "api_get (GET_asientos sid (if inc then Some ''estado'' else None)) = Inr d \<Longrightarrow>
   (\<forall>fs. js_prop d ''layout'' \<noteq> JArr fs) \<Longrightarrow> getAsientos api_get sid inc = []"
  by (cases "js_prop d ''layout''") (simp_all add: getAsientos_def getAsientos_try_def)

text \<open>
  C10. The list-fetching functions return a list whatever happens: the empty list when the
  request fails or the body of the \<^verbatim>\<open>try\<close> block raises, the unwrapped body otherwise; for
  the seats, the empty list when the layout of the payload is not an array. \<^verbatim>\<open>unwrap\<close>
  returns the empty list for every input that is neither an array nor an object with an
  array under \<^verbatim>\<open>results\<close>.
\<close>

theorem C10_list_fetchers_total:
  "(api_get (GET_peliculas pp) = Inl e1 \<longrightarrow> getPeliculas api_get pp = []) \<and>
   (api_get (GET_peliculas pp) = Inr d1 \<longrightarrow> getPeliculas api_get pp = unwrap d1) \<and>
   (api_get (GET_sesiones (map_sesiones_params sp)) = Inl e2 \<longrightarrow> getSesiones api_get sp = []) \<and>
   (api_get (GET_sesiones (map_sesiones_params sp)) = Inr d2 \<longrightarrow>
      getSesiones api_get sp = unwrap d2) \<and>
   (getAsientos_try api_get sid inc = Inl e3 \<longrightarrow> getAsientos api_get sid inc = []) \<and>
   (api_get (GET_asientos sid (if inc then Some ''estado'' else None)) = Inl e4 \<longrightarrow>
      getAsientos api_get sid inc = []) \<and>
   (api_get (GET_asientos sid (if inc then Some ''estado'' else None)) = Inr d3 \<and>
    (\<forall>fs. js_prop d3 ''layout'' \<noteq> JArr fs) \<longrightarrow> getAsientos api_get sid inc = []) \<and>
   ((\<forall>xs. data \<noteq> JArr xs) \<and> (\<forall>rs. js_prop data ''results'' \<noteq> JArr rs) \<longrightarrow>
      unwrap data = [])"
proof -
  have "api_get (GET_peliculas pp) = Inl e1 \<longrightarrow> getPeliculas api_get pp = []"
    by (simp add: getPeliculas_def)
  moreover have "api_get (GET_peliculas pp) = Inr d1 \<longrightarrow> getPeliculas api_get pp = unwrap d1"
    by (simp add: getPeliculas_def)
  moreover have "api_get (GET_sesiones (map_sesiones_params sp)) = Inl e2 \<longrightarrow>
      getSesiones api_get sp = []"
    by (simp add: getSesiones_def)
  moreover have "api_get (GET_sesiones (map_sesiones_params sp)) = Inr d2 \<longrightarrow>
      getSesiones api_get sp = unwrap d2"
    by (simp add: getSesiones_def)
  moreover note getAsientos_failure [of api_get sid inc e3]
    getAsientos_request_failure [of api_get sid inc e4]
    getAsientos_not_list [of api_get sid inc d3]
    unwrap_not_list [of data]
  ultimately show ?thesis by blast
qed

theorem C10_list_fetchers_total_witness:
  "getPeliculas (\<lambda>req. Inl (AxiosError None ''Network Error'')) None = [] \<and>
   getSesiones (\<lambda>req. Inl (AxiosError (Some 500) ''Internal Server Error'')) None = [] \<and>
   getAsientos (\<lambda>req. Inl (AxiosError (Some 404) ''NotFound'')) 9 True = [] \<and>
   getAsientos (\<lambda>req. Inr (JObj [(''layout'', JNum 7)])) 1 True = [] \<and>
   getPeliculas (\<lambda>req. Inr (JObj [(''count'', JNum 1), (''results'', JArr [JStr ''p''])])) None =
     [JStr ''p''] \<and>
   unwrap (JStr ''<html>'') = []"
  using
    C10_list_fetchers_total
      [of "\<lambda>req. Inl (AxiosError None ''Network Error'')" None "AxiosError None ''Network Error''"
          JNull None "AxiosError None ''Network Error''" JNull 9 True
          "AxiosError None ''Network Error''" "AxiosError None ''Network Error''" JNull
          "JStr ''<html>''"]
    C10_list_fetchers_total
      [of "\<lambda>req. Inr (JObj [(''layout'', JNum 7)])" None "AxiosError None ''Network Error''"
          "JObj [(''layout'', JNum 7)]" None "AxiosError None ''Network Error''"
          "JObj [(''layout'', JNum 7)]" 1 True
          "TypeError ''layout is not iterable''" "AxiosError None ''Network Error''"
          "JObj [(''layout'', JNum 7)]" JNull]
  by (simp add: getAsientos_def getAsientos_try_def getPeliculas_def getSesiones_def)

section \<open>Payment\<close>

lemma marcar_pagada_idem: "marcar_pagada i (marcar_pagada i es) = marcar_pagada i es"
  by (simp add: marcar_pagada_def)

lemma marcar_pagada_length: "length (marcar_pagada i es) = length es"
  by (simp add: marcar_pagada_def)

lemma marcar_pagada_nth:
  "k < length es \<Longrightarrow>
   marcar_pagada i es ! k =
     (if ent_id (es ! k) = i then (es ! k)\<lparr>ent_estado := EntradaPagada\<rparr> else es ! k)"
  by (simp add: marcar_pagada_def)

lemma handlePagar_success:
  "pagarEntrada api_post i (cw_server w) = (Inr e, srv') \<Longrightarrow>
   cw_state (handlePagar api_post i w) =
     (cw_state w)\<lparr>entradasCreadas := marcar_pagada i (entradasCreadas (cw_state w))\<rparr> \<and>
   cw_server (handlePagar api_post i w) = srv'"
  by (simp add: handlePagar_def handlePagar_inicio_def handlePagar_fin_def Let_def)

lemma handlePagar_failure:
  "pagarEntrada api_post i (cw_server w) = (Inl e, srv') \<Longrightarrow>
   cw_state (handlePagar api_post i w) = cw_state w \<and>
   cw_server (handlePagar api_post i w) = srv'"
  by (simp add: handlePagar_def handlePagar_inicio_def handlePagar_fin_def Let_def)

text \<open>
  A call that runs alone changes only the \<^verbatim>\<open>estado\<close> of the entries with its id: the
  render-time list is then the current one.
\<close>

lemma handlePagar_alone_only_estado:
  assumes "pagarEntrada api_post i (cw_server w) = (Inr e, srv')"
  shows "let es = entradasCreadas (cw_state w);
             es' = entradasCreadas (cw_state (handlePagar api_post i w))
         in length es' = length es \<and>
            (\<forall>k < length es.
               (ent_id (es ! k) = i \<longrightarrow> es' ! k = (es ! k)\<lparr>ent_estado := EntradaPagada\<rparr>) \<and>
               (ent_id (es ! k) \<noteq> i \<longrightarrow> es' ! k = es ! k))"
  using handlePagar_success [OF assms]
  by (simp add: Let_def marcar_pagada_length marcar_pagada_nth)

text \<open>
  When two calls overlap and both payments succeed, the second to resume writes the list
  of its own render with only its own id marked: what the first wrote is lost.
\<close>

lemma pagos_solapados_lost_update:
  assumes "pagarEntrada api_post i (cw_server w) = (Inr ei, srv1)"
    and "pagarEntrada api_post j srv1 = (Inr ej, srv2)"
  shows "entradasCreadas (cw_state (fst (pagos_solapados api_post i j w))) =
           marcar_pagada i (entradasCreadas (cw_state w))"
    and "entradasCreadas (cw_state (snd (pagos_solapados api_post i j w))) =
           marcar_pagada j (entradasCreadas (cw_state w))"
  using assms
  by (simp_all add: pagos_solapados_def handlePagar_inicio_def handlePagar_fin_def Let_def)

text \<open>
  C4 does not hold of the code when two payments overlap. On the confirmation page with
  the Tickets 1 and 5, both reserved, the customer clicks the button of Ticket 1 and then
  the button of Ticket 5 before the first request has settled; the server pays both. When
  the call for Ticket 1 has resumed, Ticket 1 is shown paid; when the call for Ticket 5
  has resumed, the entry of Ticket 1, which has another id than the Ticket just paid, is
  back to reserved.
\<close>

theorem C4_overlapping_payments_revert:
  "map t_state (st_tickets (cw_server (snd (pagos_solapados server_post 1 5 world_confirmacion_dos)))) =
     [EntradaPagada, EntradaPagada] \<and>
   entradasCreadas (cw_state world_confirmacion_dos) =
     [entrada_dos 1 ''A'' EntradaReservada, entrada_dos 5 ''B'' EntradaReservada] \<and>
   entradasCreadas (cw_state (fst (pagos_solapados server_post 1 5 world_confirmacion_dos))) =
     [entrada_dos 1 ''A'' EntradaPagada, entrada_dos 5 ''B'' EntradaReservada] \<and>
   entradasCreadas (cw_state (snd (pagos_solapados server_post 1 5 world_confirmacion_dos))) =
     [entrada_dos 1 ''A'' EntradaReservada, entrada_dos 5 ''B'' EntradaPagada]"
  by (simp add: pagos_solapados_def handlePagar_inicio_def handlePagar_fin_def Let_def
      pagarEntrada_def pay_def world_confirmacion_dos_def store_dos_def entrada_dos_def
      marcar_pagada_def entrada_of_ticket_def initialState_def)

lemma find_map_update:
  "(\<And>x. P (f x) = P x) \<Longrightarrow> find P (map f xs) = map_option f (find P xs)"
  by (induction xs) simp_all

lemma pay_paid:
  "find (\<lambda>t. t_id t = i) (st_tickets st) = Some t \<Longrightarrow> t_state t = EntradaPagada \<Longrightarrow>
   pay i st = (Inr (entrada_of_ticket t), st)"
  by (simp add: pay_def)

lemma pay_twice:
  assumes "pay i st = (Inr e, st')"
  shows "pay i st' = (Inr e, st') \<and> ent_estado e = EntradaPagada"
proof (cases "find (\<lambda>t. t_id t = i) (st_tickets st)")
  case None
  with assms show ?thesis by (simp add: pay_def)
next
  case (Some t)
  show ?thesis
  proof (cases "t_state t = EntradaPagada")
    case True
    with Some assms have "st' = st" "e = entrada_of_ticket t"
      by (simp_all add: pay_def)
    with Some True show ?thesis
      by (simp add: pay_def entrada_of_ticket_def)
  next
    case False
    let ?f = "\<lambda>u. if t_id u = i then u\<lparr>t_state := EntradaPagada\<rparr> else u"
    from Some False assms have st': "st' = st\<lparr>st_tickets := map ?f (st_tickets st)\<rparr>"
      and e: "e = entrada_of_ticket (t\<lparr>t_state := EntradaPagada\<rparr>)"
      by (simp_all add: pay_def)
    from Some have "t_id t = i"
      by (auto simp: find_Some_iff)
    moreover have "find (\<lambda>t. t_id t = i) (map ?f (st_tickets st)) =
        map_option ?f (find (\<lambda>t. t_id t = i) (st_tickets st))"
      by (rule find_map_update) simp
    ultimately have "find (\<lambda>t. t_id t = i) (st_tickets st') = Some (t\<lparr>t_state := EntradaPagada\<rparr>)"
      using Some st' by simp
    then have "pay i st' = (Inr (entrada_of_ticket (t\<lparr>t_state := EntradaPagada\<rparr>)), st')"
      by (rule pay_paid) simp
    with e show ?thesis by (simp add: entrada_of_ticket_def)
  qed
qed

lemma pagarEntrada_server:
  "pagarEntrada server_post i st = (Inr e, st') \<longleftrightarrow> pay i st = (Inr e, st')"
  by (cases "pay i st" rule: prod.exhaust; cases "fst (pay i st)") (auto simp: pagarEntrada_def)

text \<open>
  C3. Pay is idempotent. On the server, paying a Ticket that is already Paid succeeds and
  returns it with the store unchanged, and a successful payment followed by a second one
  returns the same Paid Ticket and leaves the store as the first left it. On the client,
  marking an id as paid twice gives the same \<^verbatim>\<open>entradasCreadas\<close> as marking it once, also
  through two successful runs of \<^verbatim>\<open>handlePagar\<close>.
\<close>

theorem C3_pay_idempotent:
  "(find (\<lambda>t. t_id t = i) (st_tickets st) = Some t \<and> t_state t = EntradaPagada \<longrightarrow>
      pagarEntrada server_post i st = (Inr (entrada_of_ticket t), st)) \<and>
   (pagarEntrada server_post i st = (Inr e, st') \<longrightarrow>
      pagarEntrada server_post i st' = (Inr e, st') \<and> ent_estado e = EntradaPagada) \<and>
   marcar_pagada i (marcar_pagada i es) = marcar_pagada i es \<and>
   (pagarEntrada api_post i (cw_server w) = (Inr e1, srv1) \<and>
    pagarEntrada api_post i srv1 = (Inr e2, srv2) \<longrightarrow>
      entradasCreadas (cw_state (handlePagar api_post i (handlePagar api_post i w))) =
      entradasCreadas (cw_state (handlePagar api_post i w)))"
proof -
  have "find (\<lambda>t. t_id t = i) (st_tickets st) = Some t \<and> t_state t = EntradaPagada \<longrightarrow>
      pagarEntrada server_post i st = (Inr (entrada_of_ticket t), st)"
    by (simp add: pagarEntrada_server pay_paid)
  moreover have "pagarEntrada server_post i st = (Inr e, st') \<longrightarrow>
      pagarEntrada server_post i st' = (Inr e, st') \<and> ent_estado e = EntradaPagada"
    using pay_twice [of i st e st'] by (simp add: pagarEntrada_server)
  moreover have "pagarEntrada api_post i (cw_server w) = (Inr e1, srv1) \<and>
    pagarEntrada api_post i srv1 = (Inr e2, srv2) \<longrightarrow>
      entradasCreadas (cw_state (handlePagar api_post i (handlePagar api_post i w))) =
      entradasCreadas (cw_state (handlePagar api_post i w))"
  proof
    assume h: "pagarEntrada api_post i (cw_server w) = (Inr e1, srv1) \<and>
      pagarEntrada api_post i srv1 = (Inr e2, srv2)"
    then have first: "cw_state (handlePagar api_post i w) =
        (cw_state w)\<lparr>entradasCreadas := marcar_pagada i (entradasCreadas (cw_state w))\<rparr>"
      and srv: "cw_server (handlePagar api_post i w) = srv1"
      using handlePagar_success [of api_post i w e1 srv1] by simp_all
    from h srv have "pagarEntrada api_post i (cw_server (handlePagar api_post i w)) = (Inr e2, srv2)"
      by simp
    from handlePagar_success [OF this] first show
      "entradasCreadas (cw_state (handlePagar api_post i (handlePagar api_post i w))) =
       entradasCreadas (cw_state (handlePagar api_post i w))"
      by (simp add: marcar_pagada_idem)
  qed
  ultimately show ?thesis by (simp add: marcar_pagada_idem)
qed

theorem C3_pay_idempotent_witness:
  "pagarEntrada server_post 1 store_pagado =
     (Inr (entrada_of_ticket \<lparr>t_id = 1, t_showing = 1, t_row = ''A'', t_column = 2,
                               t_email = ''otro@cine.es'', t_state = EntradaPagada\<rparr>),
      store_pagado) \<and>
   pagarEntrada server_post 1 store_ejemplo =
     (Inr (entrada_of_ticket \<lparr>t_id = 1, t_showing = 1, t_row = ''A'', t_column = 2,
                               t_email = ''otro@cine.es'', t_state = EntradaPagada\<rparr>),
      store_pagado) \<and>
   entradasCreadas
     (cw_state (handlePagar server_post 1 (handlePagar server_post 1 world_confirmacion_ejemplo))) =
   entradasCreadas (cw_state (handlePagar server_post 1 world_confirmacion_ejemplo))"
proof -
  let ?t = "\<lparr>t_id = 1, t_showing = 1, t_row = ''A'', t_column = 2,
             t_email = ''otro@cine.es'', t_state = EntradaPagada\<rparr>"
  have found: "find (\<lambda>t. t_id t = 1) (st_tickets store_pagado) = Some ?t \<and>
      t_state ?t = EntradaPagada"
    by (simp add: store_pagado_def store_ejemplo_def)
  have first: "pagarEntrada server_post 1 (cw_server world_confirmacion_ejemplo) =
      (Inr (entrada_of_ticket ?t), store_pagado)"
    by (simp add: pagarEntrada_def pay_def world_confirmacion_ejemplo_def store_ejemplo_def
        store_pagado_def)
  have srv: "cw_server world_confirmacion_ejemplo = store_ejemplo"
    by (simp add: world_confirmacion_ejemplo_def)
  note inst = C3_pay_idempotent
    [where i = 1 and st = store_pagado and t = ?t and api_post = server_post
       and w = world_confirmacion_ejemplo and ?e1.0 = "entrada_of_ticket ?t"
       and ?srv1.0 = store_pagado and ?e2.0 = "entrada_of_ticket ?t" and ?srv2.0 = store_pagado]
  from inst found have again: "pagarEntrada server_post 1 store_pagado =
      (Inr (entrada_of_ticket ?t), store_pagado)"
    by blast
  with inst first have "entradasCreadas
     (cw_state (handlePagar server_post 1 (handlePagar server_post 1 world_confirmacion_ejemplo))) =
    entradasCreadas (cw_state (handlePagar server_post 1 world_confirmacion_ejemplo))"
    by blast
  with again first srv show ?thesis by simp
qed

section \<open>The seat map\<close>














section \<open>Reservation and the seat map\<close>















section \<open>Batch reservation\<close>

lemma crear_entradas_failure:
  "crear_entradas api_post sid em sel srv acc sim = (Inl err, srv') \<Longrightarrow>
   \<exists>pre a rest entradas sim' mid.
     sel = pre @ a # rest \<and>
     crear_entradas api_post sid em pre srv acc sim = (Inr (entradas, sim'), mid) \<and>
     length entradas = length acc + length pre \<and>
     crearEntrada api_post
       \<lparr>p_sesion = sid, p_fila = fila a, p_numero = numero a, p_email = em,
        p_estado = EntradaReservada\<rparr> mid = (Inl err, srv')"
proof (induction sel arbitrary: srv acc sim)
  case Nil
  then show ?case by simp
next
  case (Cons a rest)
  let ?p = "\<lparr>p_sesion = sid, p_fila = fila a, p_numero = numero a, p_email = em,
             p_estado = EntradaReservada\<rparr>"
  obtain r s1 where call: "crearEntrada api_post ?p srv = (r, s1)"
    by (cases "crearEntrada api_post ?p srv")
  show ?case
  proof (cases r)
    case (Inl e1)
    with call Cons.prems have "e1 = err" "s1 = srv'" by simp_all
    with call Inl have "a # rest = [] @ a # rest \<and>
        crear_entradas api_post sid em [] srv acc sim = (Inr (acc, sim), srv) \<and>
        length acc = length acc + length ([]::asiento list) \<and>
        crearEntrada api_post ?p srv = (Inl err, srv')"
      by simp
    then show ?thesis by blast
  next
    case (Inr e)
    with call Cons.prems have
      "crear_entradas api_post sid em rest s1 (acc @ [e]) (sim \<or> ent_simulated e) = (Inl err, srv')"
      by simp
    from Cons.IH [OF this] obtain pre b rest' entradas sim' mid where
      split: "rest = pre @ b # rest'"
      and run: "crear_entradas api_post sid em pre s1 (acc @ [e]) (sim \<or> ent_simulated e) =
          (Inr (entradas, sim'), mid)"
      and len: "length entradas = length (acc @ [e]) + length pre"
      and fail: "crearEntrada api_post
          \<lparr>p_sesion = sid, p_fila = fila b, p_numero = numero b, p_email = em,
           p_estado = EntradaReservada\<rparr> mid = (Inl err, srv')"
      by blast
    from split have "a # rest = (a # pre) @ b # rest'" by simp
    moreover from call Inr run have
      "crear_entradas api_post sid em (a # pre) srv acc sim = (Inr (entradas, sim'), mid)"
      by simp
    moreover from len have "length entradas = length acc + length (a # pre)" by simp
    ultimately show ?thesis using fail by blast
  qed
qed

lemma handleConfirmarSeleccion_failure:
  assumes "asientosSeleccionados (aw_state w) \<noteq> []"
    and "trim (av_email (aw_view w)) \<noteq> []"
    and "crear_entradas api_post sid (trim (av_email (aw_view w)))
           (asientosSeleccionados (aw_state w)) (aw_server w) [] False = (Inl err, srv')"
  shows "aw_state (handleConfirmarSeleccion api_get api_post sid w) = aw_state w"
    and "aw_route (handleConfirmarSeleccion api_get api_post sid w) = aw_route w"
    and "aw_server (handleConfirmarSeleccion api_get api_post sid w) = srv'"
  using assms by (simp_all add: handleConfirmarSeleccion_def Let_def)

text \<open>
  C2, amended. When a \<^verbatim>\<open>crearEntrada\<close> call of a batch over a non-empty selection fails,
  the client state is left as it was: \<^verbatim>\<open>entradasCreadas\<close>, the selection and the route are
  unchanged, so no Ticket of the batch is recorded on the client. The server is left in
  the state the failing request produced, after the successful requests for the seats
  before it: the handler sends nothing that undoes them.
\<close>

theorem C2_failed_batch_not_rolled_back:
  assumes "asientosSeleccionados (aw_state w) \<noteq> []"
    and "trim (av_email (aw_view w)) \<noteq> []"
    and "crear_entradas api_post sid (trim (av_email (aw_view w)))
           (asientosSeleccionados (aw_state w)) (aw_server w) [] False = (Inl err, srv')"
  shows "aw_state (handleConfirmarSeleccion api_get api_post sid w) = aw_state w \<and>
         aw_route (handleConfirmarSeleccion api_get api_post sid w) = aw_route w \<and>
         aw_server (handleConfirmarSeleccion api_get api_post sid w) = srv' \<and>
         (\<exists>pre a rest entradas sim mid.
            asientosSeleccionados (aw_state w) = pre @ a # rest \<and>
            crear_entradas api_post sid (trim (av_email (aw_view w))) pre (aw_server w) [] False =
              (Inr (entradas, sim), mid) \<and>
            length entradas = length pre \<and>
            crearEntrada api_post
              \<lparr>p_sesion = sid, p_fila = fila a, p_numero = numero a,
               p_email = trim (av_email (aw_view w)), p_estado = EntradaReservada\<rparr> mid =
              (Inl err, srv'))"
  using handleConfirmarSeleccion_failure [OF assms, of api_get]
    crear_entradas_failure [OF assms(3)]
  by simp

text \<open>
  C2 as stated fails. With (A, 1) and (A, 2) selected and (A, 2) already taken, the second
  \<^verbatim>\<open>crearEntrada\<close> fails, and the Ticket created for (A, 1) by the first iteration is
  still in the store when the handler has returned.
\<close>

theorem C2_counterexample:
  "fst (crear_entradas server_post 1 ''x@y.com''
          [\<lparr>fila = ''A'', numero = 1, estado = AsientoLibre\<rparr>,
           \<lparr>fila = ''A'', numero = 2, estado = AsientoLibre\<rparr>] store_ejemplo [] False) =
     Inl (JsError msg_asiento_no_disponible) \<and>
   st_tickets (aw_server
     (handleConfirmarSeleccion server_get server_post 1 world_asientos_ejemplo)) =
     st_tickets store_ejemplo @
       [\<lparr>t_id = 2, t_showing = 1, t_row = ''A'', t_column = 1, t_email = ''x@y.com'',
         t_state = EntradaReservada\<rparr>]"
  by (simp add: handleConfirmarSeleccion_def world_asientos_ejemplo_def store_ejemplo_def
      initialState_def trim_def is_space_def crearEntrada_def reserve_def valid_seat_def
      toUpper_def row_labels_def Let_def)

theorem C2_failed_batch_not_rolled_back_witness:
  "asientosSeleccionados (aw_state world_asientos_ejemplo) \<noteq> [] \<and>
   trim (av_email (aw_view world_asientos_ejemplo)) = ''x@y.com'' \<and>
   aw_state (handleConfirmarSeleccion server_get server_post 1 world_asientos_ejemplo) =
     aw_state world_asientos_ejemplo \<and>
   aw_route (handleConfirmarSeleccion server_get server_post 1 world_asientos_ejemplo) = None \<and>
   aw_server (handleConfirmarSeleccion server_get server_post 1 world_asientos_ejemplo) =
     store_ejemplo\<lparr>st_tickets := st_tickets store_ejemplo @
       [\<lparr>t_id = 2, t_showing = 1, t_row = ''A'', t_column = 1, t_email = ''x@y.com'',
         t_state = EntradaReservada\<rparr>],
       st_next_id := 3\<rparr>"
proof -
  let ?srv = "store_ejemplo\<lparr>st_tickets := st_tickets store_ejemplo @
       [\<lparr>t_id = 2, t_showing = 1, t_row = ''A'', t_column = 1, t_email = ''x@y.com'',
         t_state = EntradaReservada\<rparr>],
       st_next_id := 3\<rparr>"
  have h1: "asientosSeleccionados (aw_state world_asientos_ejemplo) \<noteq> []"
    by (simp add: world_asientos_ejemplo_def)
  have em: "trim (av_email (aw_view world_asientos_ejemplo)) = ''x@y.com''"
    by (simp add: world_asientos_ejemplo_def trim_def is_space_def)
  then have h2: "trim (av_email (aw_view world_asientos_ejemplo)) \<noteq> []"
    by simp
  have h3: "crear_entradas server_post 1 (trim (av_email (aw_view world_asientos_ejemplo)))
      (asientosSeleccionados (aw_state world_asientos_ejemplo))
      (aw_server world_asientos_ejemplo) [] False =
      (Inl (JsError msg_asiento_no_disponible), ?srv)"
    unfolding em
    by (simp add: world_asientos_ejemplo_def store_ejemplo_def
      initialState_def crearEntrada_def reserve_def valid_seat_def
      toUpper_def row_labels_def Let_def)
  have route: "aw_route world_asientos_ejemplo = None"
    by (simp add: world_asientos_ejemplo_def)
  from C2_failed_batch_not_rolled_back
         [where api_post = server_post and api_get = server_get and sid = 1
            and w = world_asientos_ejemplo, OF h1 h2 h3]
       h1 em route
  show ?thesis by simp
qed

end
